theory Spec2Isabelle
  imports Complex_Main
begin

section \<open>The student/project recommender environment\<close>

text \<open>
  A shallow embedding of \<^verbatim>\<open>samples/environment/recommender4StudentsEnv.py\<close>
  (class \<^verbatim>\<open>Recommender4StudentsEnv\<close>).

  \<^item> Python numbers are exact here: every \<^verbatim>\<open>float\<close> is a \<^typ>\<open>real\<close>, so rounding
    is not part of the model. A division raises \<^verbatim>\<open>ZeroDivisionError\<close> on a zero
    divisor, as Python's float division does.
  \<^item> Every list read goes through \<open>py_get\<close> or \<open>nth_get\<close>, which raise
    \<^verbatim>\<open>IndexError\<close> out of range; \<open>py_get\<close> takes a Python integer and counts
    a negative index from the end.
  \<^item> A method that mutates \<^verbatim>\<open>self\<close> takes the state and returns the state it
    leaves behind, also when it raises: the result is a pair of the state after the
    call and either the exception or the returned value.
  \<^item> \<^verbatim>\<open>geodesic\<close> (geopy) and the numpy array operations of
    \<^verbatim>\<open>imageStateGeneration\<close> are not code of the class; they are parameters
    (record \<open>externals\<close>).
\<close>

subsection \<open>Data\<close>

datatype pyerror = IndexError | ZeroDivisionError | TypeError | ValueError

type_synonym location = "real \<times> real"

text \<open>
  A weighted preference, \<^verbatim>\<open>{"importance": i, "value": v}\<close>; for a membership
  preference the second key is \<^verbatim>\<open>"list"\<close>, kept in the same field \<open>val\<close>.
\<close>

record 'a preference =
  importance :: real
  val :: 'a

record student =
  preferredLocation :: "location preference"
  preferredRemote :: "bool preference"
  preferredMinimumSalary :: "real preference"
  preferredTypeInternship :: "string list preference"
  age :: real
  degree :: real
  university :: string
  averageMark :: real
  skills :: "string list"
  workExperience :: "string list"
  volunteerExperience :: "string list"
  languages :: "string list"

record project =
  project_id :: int
  location :: location
  remote :: bool
  minimumSalary :: real
  project_type :: string
  nParticipants :: int
  preferredAgeParticipants :: "real preference"
  preferredDegreeParticipants :: "real preference"
  preferredUniversityParticipants :: "string list preference"
  preferredAverageMark :: "real preference"
  preferredWorkExperienceParticipants :: "(real \<times> string) list"
  preferredVolunteerExperienceParticipants :: "(real \<times> string) list"
  preferredLanguagesParticipants :: "(real \<times> string) list"
  preferredSkillsNeeded :: "(real \<times> string) list"

text \<open>The constructor's arguments, the immutable part of \<^verbatim>\<open>self\<close>.\<close>

record config =
  students :: "student list"
  projects :: "project list"
  numberOptions :: nat
  withImage :: bool

text \<open>
  The mutable part of \<^verbatim>\<open>self\<close>: the grid \<^verbatim>\<open>self.state\<close> (one row per student,
  one cell per option, \<open>-1\<close> for unassigned), the counters \<^verbatim>\<open>self.assigned\<close> and the
  rosters \<^verbatim>\<open>self.studentsAssignedToProject\<close> (per project, per option, the student
  numbers as the actions gave them).
\<close>

record env =
  state :: "int list list"
  assigned :: "int list"
  studentsAssignedToProject :: "int list list list"

type_synonym image = "nat list list list"

record externals =
  geodesic_km :: "location \<Rightarrow> location \<Rightarrow> real"
  image_of :: "config \<Rightarrow> int list list \<Rightarrow> pyerror + image"

datatype observation = StateObs "int list list" | ImageObs image

text \<open>
  The info string of \<^verbatim>\<open>step\<close>: \<^verbatim>\<open>"[Nothing done. Reward 0.]"\<close>, or the message
  built from the option, the student number, the project number and the reward.
\<close>

datatype info = NothingDone | Assigned nat int int real

type_synonym step_result = "observation \<times> real \<times> bool \<times> info"

definition ALPHA :: real where "ALPHA = 5"
definition GAMMA :: real where "GAMMA = 3"
definition EPSILON :: real where "EPSILON = 2"

subsection \<open>Python list access\<close>

definition py_pos :: "'a list \<Rightarrow> int \<Rightarrow> nat" where
  "py_pos xs i = (if i < 0 then nat (i + int (length xs)) else nat i)"

definition py_get :: "'a list \<Rightarrow> int \<Rightarrow> pyerror + 'a" where
  "py_get xs i =
     (let n = int (length xs); j = (if i < 0 then i + n else i)
      in if 0 \<le> j \<and> j < n then Inr (xs ! nat j) else Inl IndexError)"

definition nth_get :: "'a list \<Rightarrow> nat \<Rightarrow> pyerror + 'a" where
  "nth_get xs k = (if k < length xs then Inr (xs ! k) else Inl IndexError)"

definition py_div :: "real \<Rightarrow> real \<Rightarrow> pyerror + real" where
  "py_div a b = (if b = 0 then Inl ZeroDivisionError else Inr (a / b))"

subsection \<open>Scoring functions\<close>

definition distanceCalculation :: "externals \<Rightarrow> location \<Rightarrow> location \<Rightarrow> real" where
  "distanceCalculation ext studentLocation projectLocation =
     (let distance = geodesic_km ext studentLocation projectLocation
      in if distance > 50 then 0 else (50 - distance) / 50)"

definition salaryCalculation :: "real \<Rightarrow> real \<Rightarrow> real" where
  "salaryCalculation studentSalary projectSalary =
     (let difference = \<bar>studentSalary - projectSalary\<bar>
      in if studentSalary \<le> projectSalary then 1
         else if difference \<le> 500 then difference / 500 else 0)"

definition subtractionCalculation :: "real \<Rightarrow> real \<Rightarrow> real \<Rightarrow> real" where
  "subtractionCalculation firstValue secondValue maxValue =
     (let difference = \<bar>firstValue - secondValue\<bar>
      in if difference \<le> maxValue then difference else 0)"

definition markCalculation :: "real \<Rightarrow> real \<Rightarrow> real" where
  "markCalculation studentMark projectMark =
     (let difference = \<bar>studentMark - projectMark\<bar>
      in if studentMark \<le> projectMark then 1
         else if difference \<le> 1 then difference / 1 else 0)"

subsection \<open>Preference aggregators\<close>

text \<open>
  Each \<^verbatim>\<open>if\<close> block of the source updates the pair
  (\<^verbatim>\<open>punctuation\<close>, \<^verbatim>\<open>factorsToEvaluate\<close>); the blocks run in the source's order.
\<close>

definition studentPreferencesPunctuation ::
  "externals \<Rightarrow> student \<Rightarrow> project \<Rightarrow> pyerror + real" where
  "studentPreferencesPunctuation ext student project =
     (let (p1, f1) =
            (if importance (preferredLocation student) \<noteq> 0
             then (0 + distanceCalculation ext (val (preferredLocation student)) (location project)
                         * (importance (preferredLocation student) / 5), 0 + 1)
             else (0, 0));
          (p2, f2) =
            (if importance (preferredRemote student) \<noteq> 0
             then (p1 + (if remote project = val (preferredRemote student)
                         then importance (preferredRemote student) / 5 else 0), f1 + 1)
             else (p1, f1));
          (p3, f3) =
            (if importance (preferredMinimumSalary student) \<noteq> 0
             then (p2 + salaryCalculation (val (preferredMinimumSalary student)) (minimumSalary project)
                         * (importance (preferredMinimumSalary student) / 5), f2 + 1)
             else (p2, f2));
          (p4, f4) =
            (if importance (preferredTypeInternship student) \<noteq> 0
             then (p3 + (if project_type project \<in> set (val (preferredTypeInternship student))
                         then importance (preferredTypeInternship student) / 5 else 0), f3 + 1)
             else (p3, f3))
      in py_div p4 f4)"

text \<open>
  One weighted-list block: for every entry \<^verbatim>\<open>(importance, tag)\<close> whose tag the
  student has, add \<^verbatim>\<open>(importance / 5.0) / len(list)\<close>.
\<close>

fun weightedList :: "nat \<Rightarrow> string list \<Rightarrow> (real \<times> string) list \<Rightarrow> real \<Rightarrow> real" where
  "weightedList n have [] punctuation = punctuation"
| "weightedList n have (entry # entries) punctuation =
     weightedList n have entries
       (if snd entry \<in> set have then punctuation + (fst entry / 5) / real n else punctuation)"

definition projectPreferencesPunctuation :: "student \<Rightarrow> project \<Rightarrow> pyerror + real" where
  "projectPreferencesPunctuation student project =
     (let (p1, f1) =
            (if importance (preferredAgeParticipants project) \<noteq> 0
             then (0 + (importance (preferredAgeParticipants project) / 5)
                         * subtractionCalculation (val (preferredAgeParticipants project)) (age student) 5,
                   0 + 1)
             else (0, 0));
          (p2, f2) =
            (if importance (preferredDegreeParticipants project) \<noteq> 0
             then (p1 + (importance (preferredDegreeParticipants project) / 5)
                         * subtractionCalculation (val (preferredDegreeParticipants project)) (degree student) 2,
                   f1 + 1)
             else (p1, f1));
          (p3, f3) =
            (if importance (preferredUniversityParticipants project) \<noteq> 0
             then (p2 + (if university student \<in> set (val (preferredUniversityParticipants project))
                         then importance (preferredUniversityParticipants project) / 5 else 0), f2 + 1)
             else (p2, f2));
          (p4, f4) =
            (if importance (preferredAverageMark project) \<noteq> 0
             then (p3 + (importance (preferredAverageMark project) / 5)
                         * markCalculation (averageMark student) (val (preferredAverageMark project)),
                   f3 + 1)
             else (p3, f3));
          (p5, f5) =
            (if length (preferredWorkExperienceParticipants project) \<noteq> 0
             then (weightedList (length (preferredWorkExperienceParticipants project))
                     (workExperience student) (preferredWorkExperienceParticipants project) p4, f4 + 1)
             else (p4, f4));
          (p6, f6) =
            (if length (preferredVolunteerExperienceParticipants project) \<noteq> 0
             then (weightedList (length (preferredVolunteerExperienceParticipants project))
                     (volunteerExperience student) (preferredVolunteerExperienceParticipants project) p5,
                   f5 + 1)
             else (p5, f5));
          (p7, f7) =
            (if length (preferredLanguagesParticipants project) \<noteq> 0
             then (weightedList (length (preferredLanguagesParticipants project))
                     (languages student) (preferredLanguagesParticipants project) p6, f6 + 1)
             else (p6, f6))
      in py_div p7 f7)"

subsection \<open>Reward\<close>

text \<open>
  The inner loop of \<^verbatim>\<open>_rewardCalculation\<close> over one roster, for one needed skill:
  the first roster member that has the skill adds \<^verbatim>\<open>skill[0] / 5.0\<close> to
  \<^verbatim>\<open>skillsPunctuation\<close>, and to \<^verbatim>\<open>oldSkillsPunctuation\<close> when it is not
  \<^verbatim>\<open>studentNumber\<close>; then the loop breaks.
\<close>

fun rosterScan ::
  "student list \<Rightarrow> int \<Rightarrow> real \<times> string \<Rightarrow> int list \<Rightarrow> real \<times> real \<Rightarrow> pyerror + real \<times> real" where
  "rosterScan studs studentNumber skill [] (skillsP, oldP) = Inr (skillsP, oldP)"
| "rosterScan studs studentNumber skill (studentId # roster) (skillsP, oldP) =
     (case py_get studs studentId of
        Inl e \<Rightarrow> Inl e
      | Inr member \<Rightarrow>
          if snd skill \<in> set (skills member)
          then Inr (skillsP + fst skill / 5,
                    if studentId \<noteq> studentNumber then oldP + fst skill / 5 else oldP)
          else rosterScan studs studentNumber skill roster (skillsP, oldP))"

text \<open>
  The outer loop over \<^verbatim>\<open>project["preferredSkillsNeeded"]\<close>. The roster read is
  \<^verbatim>\<open>self.studentsAssignedToProject[project["id"]][option]\<close>, evaluated once per skill.
  The accumulator is (\<^verbatim>\<open>skillsPunctuation\<close>, \<^verbatim>\<open>oldSkillsPunctuation\<close>,
  \<^verbatim>\<open>maximumSkillsPunctuation\<close>).
\<close>

fun skillsLoop ::
  "config \<Rightarrow> env \<Rightarrow> int \<Rightarrow> int \<Rightarrow> nat \<Rightarrow> (real \<times> string) list \<Rightarrow> real \<times> real \<times> real
     \<Rightarrow> pyerror + real \<times> real \<times> real" where
  "skillsLoop cfg e studentNumber pid option [] acc = Inr acc"
| "skillsLoop cfg e studentNumber pid option (skill # rest) (skillsP, oldP, maxP) =
     (case py_get (studentsAssignedToProject e) pid of
        Inl err \<Rightarrow> Inl err
      | Inr perOption \<Rightarrow>
          (case nth_get perOption option of
             Inl err \<Rightarrow> Inl err
           | Inr roster \<Rightarrow>
               (case rosterScan (students cfg) studentNumber skill roster (skillsP, oldP) of
                  Inl err \<Rightarrow> Inl err
                | Inr (skillsP', oldP') \<Rightarrow>
                    skillsLoop cfg e studentNumber pid option rest
                      (skillsP', oldP', maxP + fst skill / 5))))"

definition rewardCalculation ::
  "externals \<Rightarrow> config \<Rightarrow> env \<Rightarrow> int \<Rightarrow> int \<Rightarrow> nat \<Rightarrow> pyerror + real" where
  "rewardCalculation ext cfg e studentNumber projectNumber option =
     (case py_get (students cfg) studentNumber of
        Inl err \<Rightarrow> Inl err
      | Inr student \<Rightarrow>
     (case py_get (projects cfg) projectNumber of
        Inl err \<Rightarrow> Inl err
      | Inr project \<Rightarrow>
     (case studentPreferencesPunctuation ext student project of
        Inl err \<Rightarrow> Inl err
      | Inr studentPP \<Rightarrow>
     (case projectPreferencesPunctuation student project of
        Inl err \<Rightarrow> Inl err
      | Inr projectPP \<Rightarrow>
     (case skillsLoop cfg e studentNumber (project_id project) option
             (preferredSkillsNeeded project) (0, 0, 0) of
        Inl err \<Rightarrow> Inl err
      | Inr (skillsP, oldP, maxP) \<Rightarrow>
     (case py_div skillsP maxP of
        Inl err \<Rightarrow> Inl err
      | Inr skillsPunctuation \<Rightarrow>
     (case py_div oldP maxP of
        Inl err \<Rightarrow> Inl err
      | Inr oldSkillsPunctuation \<Rightarrow>
          Inr (ALPHA * studentPP + GAMMA * projectPP
               + EPSILON * (skillsPunctuation - oldSkillsPunctuation)))))))))"

subsection \<open>The state machine\<close>

text \<open>Lines 43 to 45 of the constructor, and the same three assignments of \<^verbatim>\<open>reset\<close>.\<close>

definition init :: "config \<Rightarrow> env" where
  "init cfg =
     \<lparr> state = replicate (length (students cfg)) (replicate (numberOptions cfg) (- 1)),
       assigned = replicate (numberOptions cfg) 0,
       studentsAssignedToProject =
         replicate (length (projects cfg)) (replicate (numberOptions cfg) []) \<rparr>"

fun isDone_loop :: "int \<Rightarrow> int list \<Rightarrow> bool" where
  "isDone_loop n [] = True"
| "isDone_loop n (assignations # rest) =
     (if assignations \<noteq> n then False else isDone_loop n rest)"

definition isDone :: "config \<Rightarrow> env \<Rightarrow> bool" where
  "isDone cfg e = isDone_loop (int (length (students cfg))) (assigned e)"

text \<open>
  \<^verbatim>\<open>self.imageStateGeneration() if self.withImage else deepcopy(self.state)\<close>
\<close>

definition observe :: "externals \<Rightarrow> config \<Rightarrow> env \<Rightarrow> pyerror + observation" where
  "observe ext cfg e =
     (if withImage cfg
      then (case image_of ext cfg (state e) of Inl err \<Rightarrow> Inl err | Inr im \<Rightarrow> Inr (ImageObs im))
      else Inr (StateObs (state e)))"

text \<open>The last line of \<^verbatim>\<open>step\<close>, reached by \<^verbatim>\<open>break\<close> or at the end of the loop.\<close>

definition nothingDone :: "externals \<Rightarrow> config \<Rightarrow> env \<Rightarrow> env \<times> (pyerror + step_result)" where
  "nothingDone ext cfg e =
     (case observe ext cfg e of
        Inl err \<Rightarrow> (e, Inl err)
      | Inr obs \<Rightarrow> (e, Inr (obs, 0, isDone cfg e, NothingDone)))"

text \<open>
  The two nested item assignments of the accepting branch. Both run only after the same
  items were read in the acceptance test, so neither can raise.
  \<^verbatim>\<open>self.state[studentNumber][option] = v\<close>:
\<close>

definition writeCell :: "int list list \<Rightarrow> int \<Rightarrow> nat \<Rightarrow> int \<Rightarrow> int list list" where
  "writeCell grid studentNumber option v =
     (let s = py_pos grid studentNumber in grid[s := (grid ! s)[option := v]])"

text \<open>\<^verbatim>\<open>self.studentsAssignedToProject[projectNumber][option] += [studentNumber]\<close>:\<close>

definition appendRoster :: "int list list list \<Rightarrow> int \<Rightarrow> nat \<Rightarrow> int \<Rightarrow> int list list list" where
  "appendRoster rosters projectNumber option studentNumber =
     (let p = py_pos rosters projectNumber; perOption = rosters ! p
      in rosters[p := perOption[option := perOption ! option @ [studentNumber]]])"

text \<open>
  Lines 250 to 257, the body of the accepting \<^verbatim>\<open>if\<close>: the cell is written first,
  then the reward is computed, then the counter and the roster are updated.
\<close>

definition accept ::
  "externals \<Rightarrow> config \<Rightarrow> env \<Rightarrow> int \<Rightarrow> int \<Rightarrow> nat \<Rightarrow> project \<Rightarrow> env \<times> (pyerror + step_result)" where
  "accept ext cfg e studentNumber projectNumber option project =
     (let e1 = e\<lparr>state := writeCell (state e) studentNumber option (project_id project)\<rparr>
      in case rewardCalculation ext cfg e1 studentNumber projectNumber option of
           Inl err \<Rightarrow> (e1, Inl err)
         | Inr reward \<Rightarrow>
             (case nth_get (assigned e1) option of
                Inl err \<Rightarrow> (e1, Inl err)
              | Inr count \<Rightarrow>
                  (let e2 = e1\<lparr>assigned := (assigned e1)[option := count + 1]\<rparr>;
                       e3 = e2\<lparr>studentsAssignedToProject :=
                                 appendRoster (studentsAssignedToProject e2)
                                   projectNumber option studentNumber\<rparr>
                   in (e3, Inr (StateObs (state e3), reward, isDone cfg e3,
                                Assigned option studentNumber projectNumber reward)))))"

text \<open>
  The \<^verbatim>\<open>for option in range(0, self.numberOptions)\<close> loop of \<^verbatim>\<open>step\<close>, over the
  options still to visit. The three conjuncts of the acceptance test are evaluated left to
  right and short-circuit.
\<close>

fun stepLoop ::
  "externals \<Rightarrow> config \<Rightarrow> env \<Rightarrow> int \<Rightarrow> int \<Rightarrow> nat list \<Rightarrow> env \<times> (pyerror + step_result)" where
  "stepLoop ext cfg e studentNumber projectNumber [] = nothingDone ext cfg e"
| "stepLoop ext cfg e studentNumber projectNumber (option # rest) =
     (case py_get (state e) studentNumber of
        Inl err \<Rightarrow> (e, Inl err)
      | Inr row \<Rightarrow>
     (case nth_get row option of
        Inl err \<Rightarrow> (e, Inl err)
      | Inr cell \<Rightarrow>
          if cell = - 1 then
            (case py_get (studentsAssignedToProject e) projectNumber of
               Inl err \<Rightarrow> (e, Inl err)
             | Inr perOption \<Rightarrow>
            (case nth_get perOption option of
               Inl err \<Rightarrow> (e, Inl err)
             | Inr roster \<Rightarrow>
            (case py_get (projects cfg) projectNumber of
               Inl err \<Rightarrow> (e, Inl err)
             | Inr project \<Rightarrow>
                 if int (length roster) < nParticipants project
                    \<and> project_id project \<notin> set row
                 then accept ext cfg e studentNumber projectNumber option project
                 else nothingDone ext cfg e)))
          else stepLoop ext cfg e studentNumber projectNumber rest))"

definition step :: "externals \<Rightarrow> config \<Rightarrow> env \<Rightarrow> int \<times> int \<Rightarrow> env \<times> (pyerror + step_result)" where
  "step ext cfg e action =
     stepLoop ext cfg e (fst action) (snd action) [0..<numberOptions cfg]"

definition reset :: "externals \<Rightarrow> config \<Rightarrow> env \<Rightarrow> env \<times> (pyerror + observation)" where
  "reset ext cfg e =
     (let e' = e\<lparr>state := replicate (length (students cfg)) (replicate (numberOptions cfg) (- 1)),
                 assigned := replicate (numberOptions cfg) 0,
                 studentsAssignedToProject :=
                   replicate (length (projects cfg)) (replicate (numberOptions cfg) [])\<rparr>
      in (e', observe ext cfg e'))"

subsection \<open>Notions used to state the properties\<close>

text \<open>A call of \<^verbatim>\<open>step\<close> was accepted when it returned the assignment message.\<close>

fun isAccepted :: "pyerror + step_result \<Rightarrow> bool" where
  "isAccepted (Inr (obs, reward, done, Assigned option studentNumber projectNumber r)) = True"
| "isAccepted (Inr (obs, reward, done, NothingDone)) = False"
| "isAccepted (Inl err) = False"

text \<open>
  The agent's first open slot: the position of the first \<open>-1\<close> in its row (the length
  of the row when no slot is open).
\<close>

definition firstOpen :: "int list \<Rightarrow> nat" where
  "firstOpen row = length (takeWhile (\<lambda>cell. cell \<noteq> - 1) row)"

text \<open>A caller that performs a list of actions, whatever each call returns or raises.\<close>

fun runSteps :: "externals \<Rightarrow> config \<Rightarrow> env \<Rightarrow> (int \<times> int) list \<Rightarrow> env" where
  "runSteps ext cfg e [] = e"
| "runSteps ext cfg e (action # actions) = runSteps ext cfg (fst (step ext cfg e action)) actions"

text \<open>
  The states an environment can be in: after construction, after any call of
  \<^verbatim>\<open>step\<close> (also one that raised) and after \<^verbatim>\<open>reset\<close>.
\<close>

inductive reachable :: "externals \<Rightarrow> config \<Rightarrow> env \<Rightarrow> bool" for ext cfg where
  reachable_init: "reachable ext cfg (init cfg)"
| reachable_step: "reachable ext cfg e \<Longrightarrow> reachable ext cfg (fst (step ext cfg e action))"
| reachable_reset: "reachable ext cfg e \<Longrightarrow> reachable ext cfg (fst (reset ext cfg e))"




text \<open>The shape the constructor gives the three structures.\<close>

definition shape :: "config \<Rightarrow> env \<Rightarrow> bool" where
  "shape cfg e \<longleftrightarrow>
     length (state e) = length (students cfg)
     \<and> (\<forall>row \<in> set (state e). length row = numberOptions cfg)
     \<and> length (assigned e) = numberOptions cfg
     \<and> length (studentsAssignedToProject e) = length (projects cfg)
     \<and> (\<forall>perOption \<in> set (studentsAssignedToProject e). length perOption = numberOptions cfg)"

text \<open>The acceptance test of \<^verbatim>\<open>step\<close> passes at the given option.\<close>

definition acceptsAt :: "config \<Rightarrow> env \<Rightarrow> int \<Rightarrow> int \<Rightarrow> nat \<Rightarrow> project \<Rightarrow> bool" where
  "acceptsAt cfg e studentNumber projectNumber option project \<longleftrightarrow>
     (case py_get (state e) studentNumber of
        Inl err \<Rightarrow> False
      | Inr row \<Rightarrow>
     (case nth_get row option of
        Inl err \<Rightarrow> False
      | Inr cell \<Rightarrow>
          cell = - 1 \<and>
     (case py_get (studentsAssignedToProject e) projectNumber of
        Inl err \<Rightarrow> False
      | Inr perOption \<Rightarrow>
     (case nth_get perOption option of
        Inl err \<Rightarrow> False
      | Inr roster \<Rightarrow>
          py_get (projects cfg) projectNumber = Inr project
          \<and> int (length roster) < nParticipants project
          \<and> project_id project \<notin> set row))))"

text \<open>Every roster member has its cell assigned for the roster's option.\<close>

definition rostersFilled :: "env \<Rightarrow> bool" where
  "rostersFilled e \<longleftrightarrow>
     (\<forall>perOption \<in> set (studentsAssignedToProject e). \<forall>k < length perOption.
        \<forall>member \<in> set (perOption ! k).
          (case py_get (state e) member of
             Inl err \<Rightarrow> False
           | Inr row \<Rightarrow> k < length row \<and> row ! k \<noteq> - 1))"

subsection \<open>Example data\<close>

text \<open>
  The externals of the examples. The distance is not used (no example student weighs the
  location). For the image, \<^verbatim>\<open>imageStateGeneration\<close> creates a one-dimensional array
  (line 166) and then runs \<^verbatim>\<open>imageState[student][option] = ...\<close> (line 172): the
  first index gives a numpy scalar, and assigning an item of a scalar raises
  \<^verbatim>\<open>TypeError\<close>, in the first iteration, whenever there is a student and an option.
\<close>

definition ext0 :: externals where
  "ext0 = \<lparr> geodesic_km = (\<lambda>a b. 0), image_of = (\<lambda>cfg grid. Inl TypeError) \<rparr>"

text \<open>A student who only cares about remote work and knows Python.\<close>

definition stu0 :: student where
  "stu0 = \<lparr> preferredLocation = \<lparr>importance = 0, val = (0, 0)\<rparr>,
            preferredRemote = \<lparr>importance = 5, val = True\<rparr>,
            preferredMinimumSalary = \<lparr>importance = 0, val = 0\<rparr>,
            preferredTypeInternship = \<lparr>importance = 0, val = []\<rparr>,
            age = 20, degree = 1, university = ''UPC'', averageMark = 7,
            skills = [''python''], workExperience = [], volunteerExperience = [],
            languages = [] \<rparr>"

text \<open>A student all of whose preferences have importance 0.\<close>

definition stuNone :: student where
  "stuNone = stu0\<lparr> preferredRemote := \<lparr>importance = 0, val = True\<rparr> \<rparr>"

text \<open>A remote project with one place that prefers the student's university and needs Python.\<close>

definition proj0 :: project where
  "proj0 = \<lparr> project_id = 0, location = (0, 0), remote = True, minimumSalary = 1000,
             project_type = ''internship'', nParticipants = 1,
             preferredAgeParticipants = \<lparr>importance = 0, val = 0\<rparr>,
             preferredDegreeParticipants = \<lparr>importance = 0, val = 0\<rparr>,
             preferredUniversityParticipants = \<lparr>importance = 5, val = [''UPC'']\<rparr>,
             preferredAverageMark = \<lparr>importance = 0, val = 0\<rparr>,
             preferredWorkExperienceParticipants = [],
             preferredVolunteerExperienceParticipants = [],
             preferredLanguagesParticipants = [],
             preferredSkillsNeeded = [(5, ''python'')] \<rparr>"

text \<open>The same project, preferring participants aged 25 instead (importance 5).\<close>

definition projAge :: project where
  "projAge = proj0\<lparr> preferredAgeParticipants := \<lparr>importance = 5, val = 25\<rparr>,
                    preferredUniversityParticipants := \<lparr>importance = 0, val = []\<rparr> \<rparr>"

text \<open>The same project, needing no skill.\<close>

definition projNoSkills :: project where
  "projNoSkills = proj0\<lparr> preferredSkillsNeeded := [] \<rparr>"

definition cfg0 :: config where
  "cfg0 = \<lparr> students = [stu0], projects = [proj0], numberOptions = 1, withImage = False \<rparr>"

definition cfgAge :: config where
  "cfgAge = cfg0\<lparr> projects := [projAge] \<rparr>"

definition cfgNoSkills :: config where
  "cfgNoSkills = cfg0\<lparr> projects := [projNoSkills] \<rparr>"

definition cfgNone :: config where
  "cfgNone = cfg0\<lparr> students := [stuNone] \<rparr>"

text \<open>Two students, one project with one place, two options.\<close>

definition cfg2 :: config where
  "cfg2 = \<lparr> students = [stu0, stu0], projects = [proj0], numberOptions = 2, withImage = False \<rparr>"


text \<open>The state after the first of the two students took the project's only place.\<close>

definition afterFirst :: env where
  "afterFirst = fst (step ext0 cfg2 (init cfg2) (0, 0))"

section \<open>Properties\<close>

subsection \<open>List access and the loop of step\<close>


lemma py_get_Inr:
  "py_get xs i = Inr x \<Longrightarrow> py_pos xs i < length xs \<and> xs ! py_pos xs i = x"
  by (auto simp: py_get_def py_pos_def Let_def split: if_splits)

lemma py_get_out_of_range:
  "i \<ge> int (length xs) \<or> i < - int (length xs) \<Longrightarrow> py_get xs i = Inl IndexError"
  by (auto simp: py_get_def Let_def)

lemma py_get_same_length:
  "length xs = length ys \<Longrightarrow> py_get xs i = Inr x \<Longrightarrow> \<exists>y. py_get ys i = Inr y \<and> py_pos ys i = py_pos xs i"
  by (auto simp: py_get_def py_pos_def Let_def split: if_splits)

lemma nth_get_Inr: "nth_get xs k = Inr x \<Longrightarrow> k < length xs \<and> xs ! k = x"
  by (auto simp: nth_get_def split: if_splits)

lemma acceptsAt_iff:
  "acceptsAt cfg e s p option project \<longleftrightarrow>
     (\<exists>row perOption roster.
        py_get (state e) s = Inr row \<and> nth_get row option = Inr (- 1)
        \<and> py_get (studentsAssignedToProject e) p = Inr perOption
        \<and> nth_get perOption option = Inr roster
        \<and> py_get (projects cfg) p = Inr project
        \<and> int (length roster) < nParticipants project
        \<and> project_id project \<notin> set row)"
  by (auto simp: acceptsAt_def split: sum.splits)

lemma nothingDone_fst: "fst (nothingDone ext cfg e) = e"
  by (simp add: nothingDone_def split: sum.splits)

lemma nothingDone_not_accepted: "\<not> isAccepted (snd (nothingDone ext cfg e))"
  by (simp add: nothingDone_def split: sum.splits)

lemma stepLoop_cases:
  "(fst (stepLoop ext cfg e s p opts) = e \<and> \<not> isAccepted (snd (stepLoop ext cfg e s p opts)))
   \<or> (\<exists>option project. option \<in> set opts \<and> acceptsAt cfg e s p option project
        \<and> stepLoop ext cfg e s p opts = accept ext cfg e s p option project)"
proof (induction opts)
  case Nil
  show ?case by (simp add: nothingDone_fst nothingDone_not_accepted)
next
  case (Cons option rest)
  show ?case
  proof (cases "py_get (state e) s")
    case (Inl err)
    then show ?thesis by simp
  next
    case row: (Inr row)
    show ?thesis
    proof (cases "nth_get row option")
      case (Inl err)
      with row show ?thesis by simp
    next
      case cell: (Inr cell)
      show ?thesis
      proof (cases "cell = - 1")
        case False
        with row cell Cons.IH show ?thesis by auto
      next
        case True
        show ?thesis
        proof (cases "py_get (studentsAssignedToProject e) p")
          case (Inl err)
          with row cell True show ?thesis by simp
        next
          case per: (Inr perOption)
          show ?thesis
          proof (cases "nth_get perOption option")
            case (Inl err)
            with row cell True per show ?thesis by simp
          next
            case roster: (Inr roster)
            show ?thesis
            proof (cases "py_get (projects cfg) p")
              case (Inl err)
              with row cell True per roster show ?thesis by simp
            next
              case project: (Inr project)
              show ?thesis
              proof (cases "int (length roster) < nParticipants project \<and> project_id project \<notin> set row")
                case False
                with row cell True per roster project show ?thesis
                  by (auto simp: nothingDone_fst nothingDone_not_accepted)
              next
                case ok: True
                have "acceptsAt cfg e s p option project"
                  unfolding acceptsAt_iff using row cell True per roster project ok by auto
                moreover have "stepLoop ext cfg e s p (option # rest) = accept ext cfg e s p option project"
                  using row cell True per roster project ok by simp
                ultimately show ?thesis by auto
              qed
            qed
          qed
        qed
      qed
    qed
  qed
qed




lemma acceptsAt_facts:
  assumes "acceptsAt cfg e s p option project"
  shows "py_pos (state e) s < length (state e)"
    and "option < length (state e ! py_pos (state e) s)"
    and "state e ! py_pos (state e) s ! option = - 1"
    and "project_id project \<noteq> - 1"
    and "py_pos (studentsAssignedToProject e) p < length (studentsAssignedToProject e)"
    and "option < length (studentsAssignedToProject e ! py_pos (studentsAssignedToProject e) p)"
    and "int (length (studentsAssignedToProject e ! py_pos (studentsAssignedToProject e) p ! option))
           < nParticipants project"
    and "py_get (projects cfg) p = Inr project"
    and "project_id project \<notin> set (state e ! py_pos (state e) s)"
proof -
  from assms obtain row perOption roster where
    row: "py_get (state e) s = Inr row" and cell: "nth_get row option = Inr (- 1)"
    and per: "py_get (studentsAssignedToProject e) p = Inr perOption"
    and roster: "nth_get perOption option = Inr roster"
    and project: "py_get (projects cfg) p = Inr project"
    and room: "int (length roster) < nParticipants project"
    and fresh: "project_id project \<notin> set row"
    unfolding acceptsAt_iff by blast
  note r = py_get_Inr [OF row] and c = nth_get_Inr [OF cell]
    and q = py_get_Inr [OF per] and t = nth_get_Inr [OF roster]
  show "py_pos (state e) s < length (state e)" using r by simp
  show "option < length (state e ! py_pos (state e) s)" using r c by simp
  show "state e ! py_pos (state e) s ! option = - 1" using r c by simp
  have "- 1 \<in> set row" using c by (metis nth_mem)
  with fresh show "project_id project \<noteq> - 1" by auto
  show "py_pos (studentsAssignedToProject e) p < length (studentsAssignedToProject e)"
    using q by simp
  show "option < length (studentsAssignedToProject e ! py_pos (studentsAssignedToProject e) p)"
    using q t by simp
  show "int (length (studentsAssignedToProject e ! py_pos (studentsAssignedToProject e) p ! option))
           < nParticipants project"
    using q t room by simp
  show "py_get (projects cfg) p = Inr project" by (rule project)
  show "project_id project \<notin> set (state e ! py_pos (state e) s)" using r fresh by simp
qed

text \<open>What \<open>accept\<close> leaves behind: the cell alone when it raises, all three updates otherwise.\<close>

lemma accept_cases:
  "(\<exists>err. accept ext cfg e s p option project
            = (e\<lparr>state := writeCell (state e) s option (project_id project)\<rparr>, Inl err))
   \<or> (\<exists>reward e'. option < length (assigned e)
        \<and> rewardCalculation ext cfg (e\<lparr>state := writeCell (state e) s option (project_id project)\<rparr>)
              s p option = Inr reward
        \<and> e' = e\<lparr>state := writeCell (state e) s option (project_id project),
                  assigned := (assigned e)[option := assigned e ! option + 1],
                  studentsAssignedToProject := appendRoster (studentsAssignedToProject e) p option s\<rparr>
        \<and> accept ext cfg e s p option project
            = (e', Inr (StateObs (state e'), reward, isDone cfg e', Assigned option s p reward)))"
  by (auto simp: accept_def Let_def nth_get_def split: sum.splits)




lemma accept_raises:
  "accept ext cfg e s p option project = (e', Inl err)
   \<Longrightarrow> e' = e\<lparr>state := writeCell (state e) s option (project_id project)\<rparr>"
  using accept_cases [of ext cfg e s p option project] by auto

lemma accept_returns:
  assumes "accept ext cfg e s p option project = (e', Inr result)"
  shows "e' = e\<lparr>state := writeCell (state e) s option (project_id project),
               assigned := (assigned e)[option := assigned e ! option + 1],
               studentsAssignedToProject := appendRoster (studentsAssignedToProject e) p option s\<rparr>"
    and "option < length (assigned e)"
    and "\<exists>reward. rewardCalculation ext cfg
                     (e\<lparr>state := writeCell (state e) s option (project_id project)\<rparr>) s p option
                   = Inr reward
           \<and> result = (StateObs (state e'), reward, isDone cfg e', Assigned option s p reward)"
  using accept_cases [of ext cfg e s p option project] assms by auto

lemma step_effect:
  "(fst (step ext cfg e (s, p)) = e \<and> \<not> isAccepted (snd (step ext cfg e (s, p))))
   \<or> (\<exists>option project. option < numberOptions cfg \<and> acceptsAt cfg e s p option project
        \<and> step ext cfg e (s, p) = accept ext cfg e s p option project)"
  using stepLoop_cases [of ext cfg e s p "[0..<numberOptions cfg]"] by (auto simp: step_def)

subsection \<open>Shape\<close>

lemma shape_init: "shape cfg (init cfg)"
  by (simp add: shape_def init_def)

lemma shape_reset: "shape cfg (fst (reset ext cfg e))"
  by (simp add: shape_def reset_def Let_def)

lemma set_update_same_length:
  assumes "\<forall>x \<in> set xs. length x = n"
  shows "\<forall>x \<in> set (xs[i := (xs ! i)[k := v]]). length x = n"
proof (cases "i < length xs")
  case True
  have "set (xs[i := (xs ! i)[k := v]]) \<subseteq> insert ((xs ! i)[k := v]) (set xs)"
    by (rule set_update_subset_insert)
  moreover have "length ((xs ! i)[k := v]) = n" using True assms by simp
  ultimately show ?thesis using assms by auto
next
  case False
  then have "xs[i := (xs ! i)[k := v]] = xs" by (simp add: list_update_beyond)
  with assms show ?thesis by simp
qed

lemma shape_writeCell:
  "shape cfg e \<Longrightarrow> shape cfg (e\<lparr>state := writeCell (state e) s option v\<rparr>)"
  using set_update_same_length [of "state e" "numberOptions cfg"]
  by (simp add: shape_def writeCell_def Let_def)

lemma shape_assigned_update:
  "shape cfg e \<Longrightarrow> shape cfg (e\<lparr>assigned := (assigned e)[option := v]\<rparr>)"
  by (simp add: shape_def)

lemma shape_appendRoster:
  "shape cfg e \<Longrightarrow>
   shape cfg (e\<lparr>studentsAssignedToProject := appendRoster (studentsAssignedToProject e) p option s\<rparr>)"
  using set_update_same_length [of "studentsAssignedToProject e" "numberOptions cfg"]
  by (simp add: shape_def appendRoster_def Let_def)

lemma shape_accept:
  assumes "shape cfg e"
  shows "shape cfg (fst (accept ext cfg e s p option project))"
proof (cases "accept ext cfg e s p option project")
  case (Pair e' r)
  show ?thesis
  proof (cases r)
    case (Inl err)
    with Pair accept_raises have "e' = e\<lparr>state := writeCell (state e) s option (project_id project)\<rparr>"
      by blast
    with assms Pair show ?thesis by (simp add: shape_writeCell)
  next
    case (Inr result)
    with Pair have "e' = e\<lparr>state := writeCell (state e) s option (project_id project),
               assigned := (assigned e)[option := assigned e ! option + 1],
               studentsAssignedToProject := appendRoster (studentsAssignedToProject e) p option s\<rparr>"
      using accept_returns(1) by blast
    moreover have "shape cfg (e\<lparr>state := writeCell (state e) s option (project_id project),
               assigned := (assigned e)[option := assigned e ! option + 1],
               studentsAssignedToProject := appendRoster (studentsAssignedToProject e) p option s\<rparr>)"
      using shape_appendRoster [OF shape_assigned_update [OF shape_writeCell [OF assms]]]
      by simp
    ultimately show ?thesis using Pair by simp
  qed
qed

lemma shape_step:
  assumes "shape cfg e"
  shows "shape cfg (fst (step ext cfg e action))"
proof (cases action)
  case (Pair s p)
  from step_effect [of ext cfg e s p] show ?thesis
  proof
    assume "fst (step ext cfg e (s, p)) = e \<and> \<not> isAccepted (snd (step ext cfg e (s, p)))"
    with assms Pair show ?thesis by simp
  next
    assume "\<exists>option project. option < numberOptions cfg \<and> acceptsAt cfg e s p option project
        \<and> step ext cfg e (s, p) = accept ext cfg e s p option project"
    then obtain option project where "step ext cfg e (s, p) = accept ext cfg e s p option project"
      by blast
    with Pair shape_accept [OF assms, of ext s p option project] show ?thesis by simp
  qed
qed

lemma reachable_shape: "reachable ext cfg e \<Longrightarrow> shape cfg e"
  by (induction rule: reachable.induct) (simp_all add: shape_init shape_step shape_reset)



subsection \<open>The first open slot\<close>

lemma firstOpen_open: "firstOpen row < length row \<Longrightarrow> row ! firstOpen row = - 1"
  using nth_length_takeWhile [of "\<lambda>cell. cell \<noteq> - 1" row] by (simp add: firstOpen_def)

lemma firstOpen_filled:
  assumes "k < firstOpen row"
  shows "k < length row \<and> row ! k \<noteq> - 1"
proof -
  let ?P = "\<lambda>cell :: int. cell \<noteq> - 1"
  from assms have k: "k < length (takeWhile ?P row)" by (simp add: firstOpen_def)
  then have "takeWhile ?P row ! k \<in> set (takeWhile ?P row)" by (rule nth_mem)
  then have "?P (takeWhile ?P row ! k)" by (blast dest: set_takeWhileD)
  moreover have "takeWhile ?P row ! k = row ! k" using k by (rule takeWhile_nth)
  moreover have "k < length row" using k length_takeWhile_le [of ?P row] by simp
  ultimately show ?thesis by simp
qed

lemma firstOpen_le: "k < length row \<Longrightarrow> row ! k = - 1 \<Longrightarrow> firstOpen row \<le> k"
  using firstOpen_filled [of k row] by (cases "k < firstOpen row") auto

lemma stepLoop_skip:
  assumes "py_get (state e) s = Inr row" and "\<forall>k \<in> set pre. k < length row \<and> row ! k \<noteq> - 1"
  shows "stepLoop ext cfg e s p (pre @ rest) = stepLoop ext cfg e s p rest"
  using assms by (induction pre) (simp_all add: nth_get_def)

text \<open>With an open slot in reach, the call is decided by the acceptance test at that slot.\<close>

lemma step_at_first_open:
  assumes row: "py_get (state e) s = Inr row"
    and "firstOpen row < length row" and "firstOpen row < numberOptions cfg"
  shows "step ext cfg e (s, p) =
     (case py_get (studentsAssignedToProject e) p of
        Inl err \<Rightarrow> (e, Inl err)
      | Inr perOption \<Rightarrow>
     (case nth_get perOption (firstOpen row) of
        Inl err \<Rightarrow> (e, Inl err)
      | Inr roster \<Rightarrow>
     (case py_get (projects cfg) p of
        Inl err \<Rightarrow> (e, Inl err)
      | Inr project \<Rightarrow>
          if int (length roster) < nParticipants project \<and> project_id project \<notin> set row
          then accept ext cfg e s p (firstOpen row) project
          else nothingDone ext cfg e)))"
proof -
  let ?o = "firstOpen row"
  have split: "[0..<numberOptions cfg] = [0..<?o] @ ?o # [Suc ?o..<numberOptions cfg]"
    using assms(3) upt_add_eq_append [of 0 ?o "numberOptions cfg - ?o"]
    by (simp add: upt_conv_Cons)
  have "\<forall>k \<in> set [0..<?o]. k < length row \<and> row ! k \<noteq> - 1"
    using firstOpen_filled by auto
  from stepLoop_skip [OF row this]
  have "step ext cfg e (s, p) = stepLoop ext cfg e s p (?o # [Suc ?o..<numberOptions cfg])"
    by (simp add: step_def split)
  moreover have "nth_get row ?o = Inr (- 1)"
    using assms(2) firstOpen_open [of row] by (simp add: nth_get_def)
  ultimately show ?thesis using row by simp
qed


text \<open>
  Every call either leaves the state as it was and is not an acceptance, or it is the
  accepting branch taken at the agent's first open slot.
\<close>

lemma step_first_open_cases:
  "(fst (step ext cfg e (s, p)) = e \<and> \<not> isAccepted (snd (step ext cfg e (s, p))))
   \<or> (\<exists>row project. py_get (state e) s = Inr row \<and> firstOpen row < numberOptions cfg
        \<and> acceptsAt cfg e s p (firstOpen row) project
        \<and> step ext cfg e (s, p) = accept ext cfg e s p (firstOpen row) project)"
proof (cases "fst (step ext cfg e (s, p)) = e \<and> \<not> isAccepted (snd (step ext cfg e (s, p)))")
  case True
  then show ?thesis by blast
next
  case False
  with step_effect [of ext cfg e s p] obtain option project where
    o: "option < numberOptions cfg" and acc: "acceptsAt cfg e s p option project"
    by blast
  from acc obtain row where row: "py_get (state e) s = Inr row"
    and cell: "nth_get row option = Inr (- 1)"
    unfolding acceptsAt_iff by blast
  from nth_get_Inr [OF cell] have "firstOpen row \<le> option" and "option < length row"
    by (simp_all add: firstOpen_le)
  with o have fo: "firstOpen row < length row" "firstOpen row < numberOptions cfg" by simp_all
  note eq = step_at_first_open [OF row fo, of ext p]
  show ?thesis
  proof (cases "py_get (studentsAssignedToProject e) p")
    case (Inl err)
    with eq False show ?thesis by simp
  next
    case per: (Inr perOption)
    show ?thesis
    proof (cases "nth_get perOption (firstOpen row)")
      case (Inl err)
      with eq per False show ?thesis by simp
    next
      case roster: (Inr roster)
      show ?thesis
      proof (cases "py_get (projects cfg) p")
        case (Inl err)
        with eq per roster False show ?thesis by simp
      next
        case project: (Inr project')
        show ?thesis
        proof (cases "int (length roster) < nParticipants project' \<and> project_id project' \<notin> set row")
          case no: False
          with eq per roster project have "step ext cfg e (s, p) = nothingDone ext cfg e" by auto
          with False show ?thesis by (simp add: nothingDone_fst nothingDone_not_accepted)
        next
          case ok: True
          have "nth_get row (firstOpen row) = Inr (- 1)"
            using fo(1) firstOpen_open [of row] by (simp add: nth_get_def)
          with row per roster project ok have "acceptsAt cfg e s p (firstOpen row) project'"
            unfolding acceptsAt_iff by auto
          moreover from eq per roster project ok
          have "step ext cfg e (s, p) = accept ext cfg e s p (firstOpen row) project'" by simp
          ultimately show ?thesis using row fo(2) by blast
        qed
      qed
    qed
  qed
qed


lemmas example_defs =
  cfg0_def cfgAge_def cfgNoSkills_def cfgNone_def cfg2_def stu0_def stuNone_def
  proj0_def projAge_def projNoSkills_def ext0_def

lemmas run_defs =
  step_def init_def py_get_def nth_get_def accept_def writeCell_def appendRoster_def py_pos_def
  rewardCalculation_def studentPreferencesPunctuation_def projectPreferencesPunctuation_def
  py_div_def subtractionCalculation_def ALPHA_def GAMMA_def EPSILON_def isDone_def
  nothingDone_def observe_def

lemma isDone_loop_iff: "isDone_loop n counters \<longleftrightarrow> (\<forall>counter \<in> set counters. counter = n)"
  by (induction counters) auto

text \<open>
  Claim C8. \<^verbatim>\<open>_isDone()\<close> returns true if and only if every per-option counter of
  \<^verbatim>\<open>self.assigned\<close> equals the number of students. This holds in every state, so in
  every reachable one.
\<close>

theorem isDone_iff_counters:
  "isDone cfg e \<longleftrightarrow> (\<forall>counter \<in> set (assigned e). counter = int (length (students cfg)))"
  by (simp add: isDone_def isDone_loop_iff)

text \<open>
  With two students: counters \<open>[2, 2]\<close> are done, counters \<open>[2, 1]\<close> (one assignment
  missing) are not.
\<close>

theorem isDone_iff_counters_witness:
  "isDone cfg2 \<lparr>state = [[0, 1], [0, 1]], assigned = [2, 2], studentsAssignedToProject = [[[0, 1], []]]\<rparr>
   \<and> \<not> isDone cfg2 \<lparr>state = [[0, 1], [0, - 1]], assigned = [2, 1], studentsAssignedToProject = [[[0, 1], []]]\<rparr>"
  using isDone_iff_counters [of cfg2 "\<lparr>state = [[0, 1], [0, 1]], assigned = [2, 2], studentsAssignedToProject = [[[0, 1], []]]\<rparr>"]
    isDone_iff_counters [of cfg2 "\<lparr>state = [[0, 1], [0, - 1]], assigned = [2, 1], studentsAssignedToProject = [[[0, 1], []]]\<rparr>"]
  by (simp add: cfg2_def)

text \<open>
  Claim C9. After any list of \<^verbatim>\<open>step\<close> calls on a fresh instance, \<^verbatim>\<open>reset()\<close>
  leaves the grid, the counters and the rosters equal to those of a fresh instance with the
  same students, projects and number of options.
\<close>

theorem reset_round_trip:
  "fst (reset ext cfg (runSteps ext cfg (init cfg) actions)) = init cfg"
  by (simp add: reset_def init_def Let_def)

text \<open>
  Claim C1, at a failing input. The student knows Python and the project needs only
  Python, so once assigned the student is the only roster member covering a needed skill.
  \<^verbatim>\<open>step\<close> computes the reward before it appends the student to the roster (line 251
  before line 253), so the roster scanned is empty and the skill term is 0: the reward is
  \<open>5 * 1 + 3 * 1 + 2 * 0 = 8\<close>, not \<open>5 * 1 + 3 * 1 + 2 * 1\<close>.
\<close>

theorem skill_term_ignores_new_agent:
  "''python'' \<in> set (skills stu0) \<and> preferredSkillsNeeded proj0 = [(5, ''python'')]
   \<and> studentPreferencesPunctuation ext0 stu0 proj0 = Inr 1
   \<and> projectPreferencesPunctuation stu0 proj0 = Inr 1
   \<and> step ext0 cfg0 (init cfg0) (0, 0)
       = (\<lparr>state = [[0]], assigned = [1], studentsAssignedToProject = [[[0]]]\<rparr>,
          Inr (StateObs [[0]], ALPHA * 1 + GAMMA * 1 + EPSILON * 0, True, Assigned 0 0 0 8))"
  by (simp add: run_defs example_defs)

text \<open>
  Claim C3, at a failing input. \<^verbatim>\<open>_subtractionCalculation\<close> returns the raw difference
  (up to \<^verbatim>\<open>maxValue\<close>), so a project that prefers age 25 with importance 5 scores a
  student aged 20 with 5, not with a value in [0, 1], and the accepted step returns the
  reward 20, above the maximum of 10 that the docstring of \<^verbatim>\<open>_rewardCalculation\<close> states.
\<close>

theorem reward_above_ten:
  "projectPreferencesPunctuation stu0 projAge = Inr 5
   \<and> step ext0 cfgAge (init cfgAge) (0, 0)
       = (\<lparr>state = [[0]], assigned = [1], studentsAssignedToProject = [[[0]]]\<rparr>,
          Inr (StateObs [[0]], 20, True, Assigned 0 0 0 20))"
  by (simp add: run_defs example_defs)

text \<open>
  Claim C7, at a failing input. For a project that needs no skill,
  \<^verbatim>\<open>maximumSkillsPunctuation\<close> stays \<open>0.0\<close> and
  \<^verbatim>\<open>skillsPunctuation /= maximumSkillsPunctuation\<close> raises
  \<^verbatim>\<open>ZeroDivisionError\<close>: the step returns no reward, and leaves the grid cell written
  while the counter and the roster are not updated.
\<close>

theorem no_skills_needed_raises:
  "preferredSkillsNeeded projNoSkills = []
   \<and> step ext0 cfgNoSkills (init cfgNoSkills) (0, 0)
       = (\<lparr>state = [[0]], assigned = [0], studentsAssignedToProject = [[[]]]\<rparr>,
          Inl ZeroDivisionError)"
  by (simp add: run_defs example_defs)


subsection \<open>Capacity\<close>

lemma py_pos_same_length: "length xs = length ys \<Longrightarrow> py_pos xs i = py_pos ys i"
  by (simp add: py_pos_def)

lemma py_get_range: "py_get xs i = Inr x \<Longrightarrow> - int (length xs) \<le> i \<and> i < int (length xs)"
  by (auto simp: py_get_def Let_def split: if_splits)

lemma capacity_appendRoster:
  assumes shape: "shape cfg e"
    and cap: "\<forall>q < length (projects cfg). \<forall>k < numberOptions cfg.
                int (length (studentsAssignedToProject e ! q ! k)) \<le> nParticipants (projects cfg ! q)"
    and acc: "acceptsAt cfg e s p option project"
    and q: "q < length (projects cfg)" and k: "k < numberOptions cfg"
  shows "int (length (appendRoster (studentsAssignedToProject e) p option s ! q ! k))
           \<le> nParticipants (projects cfg ! q)"
proof -
  let ?R = "studentsAssignedToProject e"
  let ?i = "py_pos ?R p"
  note f = acceptsAt_facts [OF acc]
  have len: "length ?R = length (projects cfg)" using shape by (simp add: shape_def)
  have proj: "projects cfg ! ?i = project"
    using py_get_Inr [OF f(8)] py_pos_same_length [OF len] by simp
  show ?thesis
  proof (cases "q = ?i \<and> k = option")
    case True
    then have "appendRoster ?R p option s ! q ! k = ?R ! ?i ! option @ [s]"
      using f(5,6) by (simp add: appendRoster_def Let_def)
    with f(7) proj True show ?thesis by simp
  next
    case False
    then have "appendRoster ?R p option s ! q ! k = ?R ! q ! k"
      using f(5) by (auto simp: appendRoster_def Let_def nth_list_update)
    with cap q k show ?thesis by simp
  qed
qed

lemma capacity_reachable:
  assumes "reachable ext cfg e" and nonneg: "\<forall>project \<in> set (projects cfg). 0 \<le> nParticipants project"
  shows "\<forall>q < length (projects cfg). \<forall>k < numberOptions cfg.
           int (length (studentsAssignedToProject e ! q ! k)) \<le> nParticipants (projects cfg ! q)"
  using assms(1)
proof (induction rule: reachable.induct)
  case reachable_init
  show ?case using nonneg by (simp add: init_def)
next
  case (reachable_reset e)
  show ?case using nonneg by (simp add: reset_def Let_def)
next
  case (reachable_step e action)
  obtain s p where action: "action = (s, p)" by (cases action)
  note shape = reachable_shape [OF reachable_step.hyps]
  from step_first_open_cases [of ext cfg e s p] show ?case
  proof
    assume "fst (step ext cfg e (s, p)) = e \<and> \<not> isAccepted (snd (step ext cfg e (s, p)))"
    with reachable_step.IH action show ?case by simp
  next
    assume "\<exists>row project. py_get (state e) s = Inr row \<and> firstOpen row < numberOptions cfg
        \<and> acceptsAt cfg e s p (firstOpen row) project
        \<and> step ext cfg e (s, p) = accept ext cfg e s p (firstOpen row) project"
    then obtain row project where acc: "acceptsAt cfg e s p (firstOpen row) project"
      and eq: "step ext cfg e (s, p) = accept ext cfg e s p (firstOpen row) project"
      by blast
    from accept_cases [of ext cfg e s p "firstOpen row" project] show ?case
    proof
      assume "\<exists>err. accept ext cfg e s p (firstOpen row) project
            = (e\<lparr>state := writeCell (state e) s (firstOpen row) (project_id project)\<rparr>, Inl err)"
      with eq action reachable_step.IH show ?case by auto
    next
      assume "\<exists>reward e'. firstOpen row < length (assigned e)
        \<and> rewardCalculation ext cfg (e\<lparr>state := writeCell (state e) s (firstOpen row) (project_id project)\<rparr>)
              s p (firstOpen row) = Inr reward
        \<and> e' = e\<lparr>state := writeCell (state e) s (firstOpen row) (project_id project),
                  assigned := (assigned e)[firstOpen row := assigned e ! firstOpen row + 1],
                  studentsAssignedToProject :=
                    appendRoster (studentsAssignedToProject e) p (firstOpen row) s\<rparr>
        \<and> accept ext cfg e s p (firstOpen row) project
            = (e', Inr (StateObs (state e'), reward, isDone cfg e', Assigned (firstOpen row) s p reward))"
      then have "studentsAssignedToProject (fst (step ext cfg e action))
                   = appendRoster (studentsAssignedToProject e) p (firstOpen row) s"
        using eq action by auto
      with capacity_appendRoster [OF shape reachable_step.IH acc] show ?case by simp
    qed
  qed
qed

lemma full_bucket_rejected:
  assumes row: "py_get (state e) s = Inr row" and project: "py_get (projects cfg) p = Inr project"
    and full: "nParticipants project
                 \<le> int (length (studentsAssignedToProject e ! py_pos (studentsAssignedToProject e) p
                                  ! firstOpen row))"
  shows "fst (step ext cfg e (s, p)) = e \<and> \<not> isAccepted (snd (step ext cfg e (s, p)))"
proof (rule ccontr)
  assume "\<not> ?thesis"
  with step_first_open_cases [of ext cfg e s p] row obtain project' where
    acc: "acceptsAt cfg e s p (firstOpen row) project'" by auto
  note f = acceptsAt_facts [OF acc]
  from f(8) project have "project' = project" by simp
  with f(7) full show False by simp
qed

text \<open>
  Claim C5. In every reachable state (capacities being non-negative numbers), no roster
  is longer than its project's \<^verbatim>\<open>nParticipants\<close>; and a step whose roster, at the
  student's first open slot, is already full leaves the state as it was and is not an
  acceptance.
\<close>

theorem capacity_law:
  assumes "reachable ext cfg e"
    and "\<forall>project \<in> set (projects cfg). 0 \<le> nParticipants project"
  shows "(\<forall>q < length (projects cfg). \<forall>k < numberOptions cfg.
            int (length (studentsAssignedToProject e ! q ! k)) \<le> nParticipants (projects cfg ! q))
         \<and> (\<forall>s p row project.
               py_get (state e) s = Inr row \<and> py_get (projects cfg) p = Inr project
               \<and> nParticipants project
                    \<le> int (length (studentsAssignedToProject e
                                     ! py_pos (studentsAssignedToProject e) p ! firstOpen row))
               \<longrightarrow> fst (step ext cfg e (s, p)) = e \<and> \<not> isAccepted (snd (step ext cfg e (s, p))))"
  using capacity_reachable [OF assms] full_bucket_rejected by blast

lemma afterFirst_eq:
  "afterFirst = \<lparr>state = [[0, - 1], [- 1, - 1]], assigned = [1, 0],
                 studentsAssignedToProject = [[[0], []]]\<rparr>"
  by code_simp

text \<open>
  Two students and one project with one place: after the first student took it, the roster
  has length 1, and the second student's step for the same project is rejected.
\<close>

theorem capacity_law_witness:
  "reachable ext0 cfg2 afterFirst
   \<and> int (length (studentsAssignedToProject afterFirst ! 0 ! 0)) \<le> nParticipants (projects cfg2 ! 0)
   \<and> length (studentsAssignedToProject afterFirst ! 0 ! 0) = 1
   \<and> fst (step ext0 cfg2 afterFirst (1, 0)) = afterFirst
   \<and> \<not> isAccepted (snd (step ext0 cfg2 afterFirst (1, 0)))"
proof -
  have r: "reachable ext0 cfg2 afterFirst"
    unfolding afterFirst_def by (rule reachable_step [OF reachable_init])
  have n: "\<forall>project \<in> set (projects cfg2). 0 \<le> nParticipants project"
    by (simp add: example_defs)
  note law = capacity_law [OF r n]
  have one: "length (studentsAssignedToProject afterFirst ! 0 ! 0) = 1"
    by (simp add: afterFirst_eq)
  have a: "int (length (studentsAssignedToProject afterFirst ! 0 ! 0)) \<le> nParticipants (projects cfg2 ! 0)"
    using law by (simp add: cfg2_def)
  have "py_get (state afterFirst) 1 = Inr [- 1, - 1] \<and> py_get (projects cfg2) 0 = Inr proj0
        \<and> nParticipants proj0
            \<le> int (length (studentsAssignedToProject afterFirst
                              ! py_pos (studentsAssignedToProject afterFirst) 0 ! firstOpen [- 1, - 1]))"
    by (simp add: afterFirst_eq py_get_def py_pos_def firstOpen_def cfg2_def proj0_def)
  with law have "fst (step ext0 cfg2 afterFirst (1, 0)) = afterFirst
        \<and> \<not> isAccepted (snd (step ext0 cfg2 afterFirst (1, 0)))"
    by blast
  with r one a show ?thesis by simp
qed


subsection \<open>Rejection at the first open slot\<close>


lemma py_get_in_set: "py_get xs i = Inr x \<Longrightarrow> x \<in> set xs"
  using py_get_Inr [of xs i x] by (metis nth_mem)








subsection \<open>Actions out of range\<close>

text \<open>
  Claim C4, as stated, fails: Python counts a negative index from the end, and
  \<^verbatim>\<open>step\<close> has no range check of its own. With one student and one project, the
  action \<open>(-1, 0)\<close> is accepted and changes the grid, the counter and the roster.
\<close>

theorem negative_agent_accepted:
  "\<not> (0 \<le> (- 1 :: int))
   \<and> step ext0 cfg0 (init cfg0) (- 1, 0)
       = (\<lparr>state = [[0]], assigned = [1], studentsAssignedToProject = [[[- 1]]]\<rparr>,
          Inr (StateObs [[0]], 8, True, Assigned 0 (- 1) 0 8))
   \<and> fst (step ext0 cfg0 (init cfg0) (- 1, 0)) \<noteq> init cfg0"
  by (simp add: run_defs example_defs)

text \<open>
  Claim C4, amended. In a reachable state, an action whose student number is at least the
  number of students or below its negation, or whose project number is at least the number
  of projects or below its negation, leaves the grid, the counters and the rosters exactly
  as they were, and is not an acceptance.
\<close>

theorem out_of_range_rejected:
  assumes "reachable ext cfg e"
    and "int (length (students cfg)) \<le> s \<or> s < - int (length (students cfg))
         \<or> int (length (projects cfg)) \<le> p \<or> p < - int (length (projects cfg))"
  shows "fst (step ext cfg e (s, p)) = e \<and> \<not> isAccepted (snd (step ext cfg e (s, p)))"
proof (rule ccontr)
  assume "\<not> ?thesis"
  with step_first_open_cases [of ext cfg e s p] obtain row project where
    row: "py_get (state e) s = Inr row"
    and acc: "acceptsAt cfg e s p (firstOpen row) project" by auto
  have "length (state e) = length (students cfg)"
    using reachable_shape [OF assms(1)] by (simp add: shape_def)
  with py_get_range [OF row] py_get_range [OF acceptsAt_facts(8) [OF acc]] assms(2)
  show False by simp
qed

text \<open>One student, one project: the actions \<open>(1, 0)\<close> and \<open>(0, -2)\<close> change nothing.\<close>

theorem out_of_range_rejected_witness:
  "reachable ext0 cfg0 (init cfg0)
   \<and> fst (step ext0 cfg0 (init cfg0) (1, 0)) = init cfg0
   \<and> \<not> isAccepted (snd (step ext0 cfg0 (init cfg0) (1, 0)))
   \<and> fst (step ext0 cfg0 (init cfg0) (0, - 2)) = init cfg0"
proof -
  have r: "reachable ext0 cfg0 (init cfg0)" by (rule reachable_init)
  have a: "int (length (students cfg0)) \<le> 1 \<or> (1 :: int) < - int (length (students cfg0))
         \<or> int (length (projects cfg0)) \<le> 0 \<or> (0 :: int) < - int (length (projects cfg0))"
    by (simp add: cfg0_def)
  have b: "int (length (students cfg0)) \<le> 0 \<or> (0 :: int) < - int (length (students cfg0))
         \<or> int (length (projects cfg0)) \<le> - 2 \<or> (- 2 :: int) < - int (length (projects cfg0))"
    by (simp add: cfg0_def)
  from out_of_range_rejected [OF r a] out_of_range_rejected [OF r b] r
  show ?thesis by simp
qed

subsection \<open>A zero denominator in an aggregator\<close>

lemma studentPreferencesPunctuation_error:
  "studentPreferencesPunctuation ext student project = Inl err \<Longrightarrow> err = ZeroDivisionError"
  by (auto simp: studentPreferencesPunctuation_def py_div_def Let_def split: if_splits prod.splits)

lemma rewardCalculation_aggregator_fails:
  assumes "py_get (students cfg) s = Inr student" and "py_get (projects cfg) p = Inr project"
    and "studentPreferencesPunctuation ext student project = Inl ZeroDivisionError
         \<or> projectPreferencesPunctuation student project = Inl ZeroDivisionError"
  shows "rewardCalculation ext cfg e s p option = Inl ZeroDivisionError"
proof (cases "studentPreferencesPunctuation ext student project")
  case (Inl err)
  with studentPreferencesPunctuation_error [OF Inl] assms(1,2) show ?thesis
    by (simp add: rewardCalculation_def)
next
  case (Inr studentPP)
  with assms show ?thesis by (simp add: rewardCalculation_def)
qed

text \<open>
  Claim C2, as stated, fails: the accepting branch writes the grid cell (line 250) before
  it computes the reward (line 251). For a student all of whose preferences have
  importance 0, the student-side aggregator divides by zero, and the call aborts with the
  cell already written.
\<close>

theorem zero_denominator_changes_grid:
  "studentPreferencesPunctuation ext0 stuNone proj0 = Inl ZeroDivisionError
   \<and> step ext0 cfgNone (init cfgNone) (0, 0)
       = (\<lparr>state = [[0]], assigned = [0], studentsAssignedToProject = [[[]]]\<rparr>,
          Inl ZeroDivisionError)
   \<and> state (fst (step ext0 cfgNone (init cfgNone) (0, 0))) \<noteq> state (init cfgNone)"
  by (simp add: run_defs example_defs)

text \<open>
  Claim C2, amended. When a preference aggregator has a zero denominator for the action's
  student and project, a \<^verbatim>\<open>step\<close> call never changes the counters or the rosters and
  never is an acceptance; the grid is either unchanged (the aggregator was not reached),
  or the call raised \<^verbatim>\<open>ZeroDivisionError\<close> and the grid differs from the one before in
  the cell of the agent's first open slot alone, which holds the project's id.
\<close>

theorem zero_denominator_frame:
  assumes "py_get (students cfg) s = Inr student" and "py_get (projects cfg) p = Inr project"
    and "studentPreferencesPunctuation ext student project = Inl ZeroDivisionError
         \<or> projectPreferencesPunctuation student project = Inl ZeroDivisionError"
  shows "assigned (fst (step ext cfg e (s, p))) = assigned e
     \<and> studentsAssignedToProject (fst (step ext cfg e (s, p))) = studentsAssignedToProject e
     \<and> \<not> isAccepted (snd (step ext cfg e (s, p)))
     \<and> (state (fst (step ext cfg e (s, p))) = state e
        \<or> (\<exists>row. py_get (state e) s = Inr row
              \<and> snd (step ext cfg e (s, p)) = Inl ZeroDivisionError
              \<and> state (fst (step ext cfg e (s, p)))
                  = writeCell (state e) s (firstOpen row) (project_id project)))"
proof -
  from step_first_open_cases [of ext cfg e s p] show ?thesis
  proof
    assume "fst (step ext cfg e (s, p)) = e \<and> \<not> isAccepted (snd (step ext cfg e (s, p)))"
    then show ?thesis by simp
  next
    assume "\<exists>row project. py_get (state e) s = Inr row \<and> firstOpen row < numberOptions cfg
        \<and> acceptsAt cfg e s p (firstOpen row) project
        \<and> step ext cfg e (s, p) = accept ext cfg e s p (firstOpen row) project"
    then obtain row project' where row: "py_get (state e) s = Inr row"
      and acc: "acceptsAt cfg e s p (firstOpen row) project'"
      and eq: "step ext cfg e (s, p) = accept ext cfg e s p (firstOpen row) project'"
      by blast
    from acceptsAt_facts(8) [OF acc] assms(2) have same: "project' = project" by simp
    have "accept ext cfg e s p (firstOpen row) project
            = (e\<lparr>state := writeCell (state e) s (firstOpen row) (project_id project)\<rparr>,
               Inl ZeroDivisionError)"
      using rewardCalculation_aggregator_fails [OF assms]
      by (simp add: accept_def Let_def)
    with eq same row show ?thesis by simp
  qed
qed

text \<open>
  The student without preferences, on a fresh instance: the call raises, counter and
  roster are those of the fresh instance.
\<close>

theorem zero_denominator_frame_witness:
  "py_get (students cfgNone) 0 = Inr stuNone \<and> py_get (projects cfgNone) 0 = Inr proj0
   \<and> studentPreferencesPunctuation ext0 stuNone proj0 = Inl ZeroDivisionError
   \<and> snd (step ext0 cfgNone (init cfgNone) (0, 0)) = Inl ZeroDivisionError
   \<and> assigned (fst (step ext0 cfgNone (init cfgNone) (0, 0))) = [0]
   \<and> studentsAssignedToProject (fst (step ext0 cfgNone (init cfgNone) (0, 0))) = [[[]]]"
proof -
  have a: "py_get (students cfgNone) 0 = Inr stuNone" and b: "py_get (projects cfgNone) 0 = Inr proj0"
    by (simp_all add: py_get_def cfgNone_def cfg0_def)
  have c: "studentPreferencesPunctuation ext0 stuNone proj0 = Inl ZeroDivisionError
           \<or> projectPreferencesPunctuation stuNone proj0 = Inl ZeroDivisionError"
    by (simp add: run_defs example_defs)
  have d: "studentPreferencesPunctuation ext0 stuNone proj0 = Inl ZeroDivisionError"
    by (simp add: run_defs example_defs)
  have e: "snd (step ext0 cfgNone (init cfgNone) (0, 0)) = Inl ZeroDivisionError"
    by (simp add: run_defs example_defs)
  have i: "assigned (init cfgNone) = [0]" "studentsAssignedToProject (init cfgNone) = [[[]]]"
    by (simp_all add: init_def example_defs)
  from zero_denominator_frame [OF a b c, of "init cfgNone"] a b d e i
  show ?thesis by simp
qed


subsection \<open>Counters, grid and rosters\<close>








subsection \<open>The skill term of an accepted step\<close>

lemma py_get_writeCell:
  assumes "py_get grid r = Inr row"
  shows "py_get (writeCell grid s option v) r
           = Inr (if py_pos grid r = py_pos grid s then row[option := v] else row)"
proof -
  note f = py_get_Inr [OF assms] and g = py_get_range [OF assms]
  have pos: "py_pos (writeCell grid s option v) r = py_pos grid r"
    by (simp add: py_pos_def writeCell_def Let_def)
  have "py_get (writeCell grid s option v) r = Inr (writeCell grid s option v ! py_pos grid r)"
    using g by (auto simp: py_get_def py_pos_def writeCell_def Let_def)
  moreover have "writeCell grid s option v ! py_pos grid r
                   = (if py_pos grid r = py_pos grid s then row[option := v] else row)"
    using f by (auto simp: writeCell_def Let_def nth_list_update)
  ultimately show ?thesis by simp
qed

lemma rostersFilled_fresh:
  "studentsAssignedToProject e = replicate m (replicate n []) \<Longrightarrow> rostersFilled e"
  by (auto simp: rostersFilled_def)

lemma rostersFilled_writeCell:
  assumes inv: "rostersFilled e" and acc: "acceptsAt cfg e s p option project"
  shows "rostersFilled (e\<lparr>state := writeCell (state e) s option (project_id project)\<rparr>)"
  unfolding rostersFilled_def
proof (intro ballI allI impI)
  fix perOption k member
  assume per: "perOption \<in> set (studentsAssignedToProject
                  (e\<lparr>state := writeCell (state e) s option (project_id project)\<rparr>))"
    and k: "k < length perOption" and mem: "member \<in> set (perOption ! k)"
  note f = acceptsAt_facts [OF acc]
  from per have per': "perOption \<in> set (studentsAssignedToProject e)" by simp
  from inv per' k mem
  have "case py_get (state e) member of Inl err \<Rightarrow> False
        | Inr row \<Rightarrow> k < length row \<and> row ! k \<noteq> - 1"
    unfolding rostersFilled_def by blast
  then obtain row where row: "py_get (state e) member = Inr row"
    and filled: "k < length row" "row ! k \<noteq> - 1"
    by (cases "py_get (state e) member") auto
  from filled f(4) have "k < length (row[option := project_id project])
      \<and> row[option := project_id project] ! k \<noteq> - 1"
    by (cases "k = option") simp_all
  with filled py_get_writeCell [OF row, of s option "project_id project"]
  show "case py_get (state (e\<lparr>state := writeCell (state e) s option (project_id project)\<rparr>)) member of
          Inl err \<Rightarrow> False
        | Inr row \<Rightarrow> k < length row \<and> row ! k \<noteq> - 1"
    by simp
qed

lemma rostersFilled_appendRoster:
  assumes inv: "rostersFilled e" and acc: "acceptsAt cfg e s p option project"
  shows "rostersFilled
           (e\<lparr>state := writeCell (state e) s option (project_id project),
              assigned := counters,
              studentsAssignedToProject := appendRoster (studentsAssignedToProject e) p option s\<rparr>)"
    (is "rostersFilled ?e'")
  unfolding rostersFilled_def
proof (intro ballI allI impI)
  fix perOption k member
  assume per: "perOption \<in> set (studentsAssignedToProject ?e')"
    and k: "k < length perOption" and mem: "member \<in> set (perOption ! k)"
  let ?R = "studentsAssignedToProject e"
  let ?i = "py_pos ?R p"
  let ?e1 = "e\<lparr>state := writeCell (state e) s option (project_id project)\<rparr>"
  note f = acceptsAt_facts [OF acc]
  have grid: "state ?e' = state ?e1" by simp
  note inv1 = rostersFilled_writeCell [OF inv acc]
  from acc obtain row where row: "py_get (state e) s = Inr row"
    unfolding acceptsAt_iff by blast
  have row_at: "state e ! py_pos (state e) s = row" using py_get_Inr [OF row] by simp
  have new: "case py_get (state ?e1) s of Inl err \<Rightarrow> False
             | Inr row \<Rightarrow> option < length row \<and> row ! option \<noteq> - 1"
    using py_get_writeCell [OF row, of s option "project_id project"] f(2,4) row_at by simp
  have "perOption = (?R ! ?i)[option := ?R ! ?i ! option @ [s]] \<or> perOption \<in> set ?R"
    using per set_update_subset_insert [of ?R ?i "(?R ! ?i)[option := ?R ! ?i ! option @ [s]]"]
    by (auto simp: appendRoster_def Let_def)
  then have "(k = option \<and> member = s)
      \<or> (\<exists>old \<in> set ?R. k < length old \<and> member \<in> set (old ! k))"
  proof
    assume eq: "perOption = (?R ! ?i)[option := ?R ! ?i ! option @ [s]]"
    show ?thesis
    proof (cases "k = option")
      case True
      with eq mem f(6) have "member = s \<or> member \<in> set (?R ! ?i ! option)" by auto
      moreover have "?R ! ?i \<in> set ?R" using f(5) by simp
      ultimately show ?thesis using True f(6) by blast
    next
      case False
      with eq mem k have "member \<in> set (?R ! ?i ! k)" "k < length (?R ! ?i)" by simp_all
      moreover have "?R ! ?i \<in> set ?R" using f(5) by simp
      ultimately show ?thesis by blast
    qed
  next
    assume "perOption \<in> set ?R"
    with k mem show ?thesis by blast
  qed
  then show "case py_get (state ?e') member of
          Inl err \<Rightarrow> False
        | Inr row \<Rightarrow> k < length row \<and> row ! k \<noteq> - 1"
  proof
    assume "k = option \<and> member = s"
    with new show ?thesis by (simp only: grid)
  next
    assume "\<exists>old \<in> set ?R. k < length old \<and> member \<in> set (old ! k)"
    then obtain old where "old \<in> set (studentsAssignedToProject ?e1)"
      "k < length old" "member \<in> set (old ! k)" by auto
    with inv1 show ?thesis unfolding rostersFilled_def grid by blast
  qed
qed

lemma rostersFilled_reachable: "reachable ext cfg e \<Longrightarrow> rostersFilled e"
proof (induction rule: reachable.induct)
  case reachable_init
  show ?case by (rule rostersFilled_fresh [of _ "length (projects cfg)" "numberOptions cfg"])
      (simp add: init_def)
next
  case (reachable_reset e)
  show ?case by (rule rostersFilled_fresh [of _ "length (projects cfg)" "numberOptions cfg"])
      (simp add: reset_def Let_def)
next
  case (reachable_step e action)
  obtain s p where action: "action = (s, p)" by (cases action)
  from step_first_open_cases [of ext cfg e s p] show ?case
  proof
    assume "fst (step ext cfg e (s, p)) = e \<and> \<not> isAccepted (snd (step ext cfg e (s, p)))"
    with reachable_step.IH action show ?case by simp
  next
    assume "\<exists>row project. py_get (state e) s = Inr row \<and> firstOpen row < numberOptions cfg
        \<and> acceptsAt cfg e s p (firstOpen row) project
        \<and> step ext cfg e (s, p) = accept ext cfg e s p (firstOpen row) project"
    then obtain row project where acc: "acceptsAt cfg e s p (firstOpen row) project"
      and eq: "step ext cfg e (s, p) = accept ext cfg e s p (firstOpen row) project"
      by blast
    obtain e' r where res: "accept ext cfg e s p (firstOpen row) project = (e', r)"
      by (cases "accept ext cfg e s p (firstOpen row) project")
    show ?case
    proof (cases r)
      case (Inl err)
      with res have "e' = e\<lparr>state := writeCell (state e) s (firstOpen row) (project_id project)\<rparr>"
        by (simp add: accept_raises)
      with rostersFilled_writeCell [OF reachable_step.IH acc] eq res action
      show ?thesis by simp
    next
      case (Inr result)
      with res accept_returns(1) [of ext cfg e s p "firstOpen row" project e' result]
      have "e' = e\<lparr>state := writeCell (state e) s (firstOpen row) (project_id project),
               assigned := (assigned e)[firstOpen row := assigned e ! firstOpen row + 1],
               studentsAssignedToProject :=
                 appendRoster (studentsAssignedToProject e) p (firstOpen row) s\<rparr>"
        by simp
      with rostersFilled_appendRoster [OF reachable_step.IH acc] eq res action
      show ?thesis by simp
    qed
  qed
qed

lemma rosterScan_difference:
  assumes "s \<notin> set roster"
    and "rosterScan studs s skill roster (a, b) = Inr (a', b')"
  shows "a' - b' = a - b"
  using assms
  by (induction roster) (auto split: sum.splits if_splits)

lemma skillsLoop_difference:
  assumes "\<And>perOption roster. py_get (studentsAssignedToProject e) pid = Inr perOption
             \<Longrightarrow> nth_get perOption option = Inr roster \<Longrightarrow> s \<notin> set roster"
    and "skillsLoop cfg e s pid option needed (a, b, m) = Inr (a', b', m')"
  shows "a' - b' = a - b"
  using assms(2)
proof (induction needed arbitrary: a b m)
  case Nil
  then show ?case by simp
next
  case (Cons skill rest)
  from Cons.prems obtain perOption roster a1 b1 where
    per: "py_get (studentsAssignedToProject e) pid = Inr perOption"
    and roster: "nth_get perOption option = Inr roster"
    and scan: "rosterScan (students cfg) s skill roster (a, b) = Inr (a1, b1)"
    and rest: "skillsLoop cfg e s pid option rest (a1, b1, m + fst skill / 5) = Inr (a', b', m')"
    by (auto split: sum.splits)
  from rosterScan_difference [OF assms(1) [OF per roster] scan] Cons.IH [OF rest]
  show ?case by simp
qed

text \<open>
  In every reachable state the reward of an accepted step has no skill part: the roster
  scanned does not contain the new agent, so every counted skill is counted as old.
\<close>

lemma accepted_reward_without_skills:
  assumes reach: "reachable ext cfg e"
    and step: "step ext cfg e (s, p) = (e', Inr (obs, reward, done, Assigned option s' p' r))"
  shows "\<exists>student project studentPP projectPP.
           py_get (students cfg) s = Inr student \<and> py_get (projects cfg) p = Inr project
           \<and> studentPreferencesPunctuation ext student project = Inr studentPP
           \<and> projectPreferencesPunctuation student project = Inr projectPP
           \<and> reward = ALPHA * studentPP + GAMMA * projectPP"
proof -
  from step have "isAccepted (snd (step ext cfg e (s, p)))" by simp
  with step_first_open_cases [of ext cfg e s p] obtain row project where
    acc: "acceptsAt cfg e s p (firstOpen row) project"
    and eq: "step ext cfg e (s, p) = accept ext cfg e s p (firstOpen row) project"
    by auto
  let ?o = "firstOpen row"
  let ?e1 = "e\<lparr>state := writeCell (state e) s ?o (project_id project)\<rparr>"
  note f = acceptsAt_facts [OF acc]
  from eq step have ret: "accept ext cfg e s p ?o project
        = (e', Inr (obs, reward, done, Assigned option s' p' r))" by simp
  from accept_returns(3) [OF ret]
  have rew: "rewardCalculation ext cfg ?e1 s p ?o = Inr reward" by auto
  have absent: "s \<notin> set roster"
    if "py_get (studentsAssignedToProject ?e1) (project_id project) = Inr perOption"
      and "nth_get perOption ?o = Inr roster" for perOption roster
  proof
    assume "s \<in> set roster"
    moreover have "perOption \<in> set (studentsAssignedToProject e)"
      using that(1) py_get_in_set [of "studentsAssignedToProject e"] by simp
    moreover have "?o < length perOption" "perOption ! ?o = roster"
      using nth_get_Inr [OF that(2)] by simp_all
    ultimately have "case py_get (state e) s of Inl err \<Rightarrow> False
                     | Inr row \<Rightarrow> ?o < length row \<and> row ! ?o \<noteq> - 1"
      using rostersFilled_reachable [OF reach] unfolding rostersFilled_def by blast
    with f(1,3) show False
      using py_get_Inr [of "state e" s] by (auto split: sum.splits)
  qed
  from rew f(8) obtain student studentPP projectPP a b m where
    student: "py_get (students cfg) s = Inr student"
    and spp: "studentPreferencesPunctuation ext student project = Inr studentPP"
    and ppp: "projectPreferencesPunctuation student project = Inr projectPP"
    and loop: "skillsLoop cfg ?e1 s (project_id project) ?o (preferredSkillsNeeded project) (0, 0, 0)
                 = Inr (a, b, m)"
    and m: "m \<noteq> 0"
    and reward: "reward = ALPHA * studentPP + GAMMA * projectPP + EPSILON * (a / m - b / m)"
    by (auto simp: rewardCalculation_def py_div_def split: sum.splits if_splits)
  from skillsLoop_difference [OF absent loop] have "a = b" by simp
  with reward have "reward = ALPHA * studentPP + GAMMA * projectPP" by simp
  with student f(8) spp ppp show ?thesis by blast
qed

text \<open>A project that needs no skill makes the reward computation raise, whoever is assigned.\<close>

lemma no_skills_no_reward:
  assumes "py_get (projects cfg) p = Inr project" and "preferredSkillsNeeded project = []"
  shows "rewardCalculation ext cfg e s p option \<noteq> Inr reward"
  using assms by (auto simp: rewardCalculation_def py_div_def split: sum.splits)

end
